theory Spec2Isabelle
  imports Complex_Main "HOL-Library.Char_ord" "HOL-Library.List_Lexorder"
begin

section \<open>Data model\<close>

text \<open>
  The dashboard script \<^verbatim>\<open>app.py\<close> works on two pandas data frames: the season summary
  (\<^verbatim>\<open>df\<close>) and the per-match log (\<^verbatim>\<open>players_enriched\<close>). A cell of a frame is missing
  (NaN / None), a number or a text. Numbers are real numbers: the floating-point rounding of
  pandas is not modelled. Texts are byte strings (UTF-8), so a column such as the age column
  is named by its bytes.
\<close>

datatype cell = NA | Num real | Str string

text \<open>
  The exceptions the script can end with. \<^verbatim>\<open>ReError\<close> is \<^verbatim>\<open>re.error\<close> (an invalid
  search pattern), \<^verbatim>\<open>StreamlitAPIException\<close> is raised by a widget that rejects its
  arguments.
\<close>

datatype error =
    KeyError string
  | TypeError
  | ValueError
  | IndexError
  | ReError
  | StreamlitAPIException

text \<open>
  A frame has its column labels, in order, and its rows. A row gives a cell for every label;
  what it gives for a label that is not a column of the frame is never read through the
  frame's own accessors.
\<close>

type_synonym row = "string \<Rightarrow> cell"

record frame =
  columns :: "string list"
  rows :: "row list"

definition row_of :: "(string \<times> cell) list \<Rightarrow> row" where
  "row_of kvs = (\<lambda>c. case map_of kvs c of Some v \<Rightarrow> v | None \<Rightarrow> NA)"

text \<open>Sequencing of steps that may raise: the first exception ends the script.\<close>

definition andthen :: "error + 'a \<Rightarrow> ('a \<Rightarrow> error + 'b) \<Rightarrow> error + 'b" where
  "andthen m f = (case m of Inl e \<Rightarrow> Inl e | Inr x \<Rightarrow> f x)"

text \<open>\<^verbatim>\<open>df[c]\<close>: the cells of a column, \<^verbatim>\<open>KeyError\<close> when the frame has no such column.\<close>

definition getitem :: "frame \<Rightarrow> string \<Rightarrow> error + cell list" where
  "getitem df c =
     (if c \<in> set (columns df) then Inr (map (\<lambda>r. r c) (rows df)) else Inl (KeyError c))"

text \<open>
  \<^verbatim>\<open>df[df[c].p]\<close>: the rows whose cell in column \<open>c\<close> satisfies an elementwise predicate,
  in their order; the columns stay.
\<close>

definition where_col :: "string \<Rightarrow> (cell \<Rightarrow> bool) \<Rightarrow> frame \<Rightarrow> error + frame" where
  "where_col c p df =
     (if c \<in> set (columns df) then Inr (df\<lparr>rows := filter (\<lambda>r. p (r c)) (rows df)\<rparr>)
      else Inl (KeyError c))"

text \<open>
  \<^verbatim>\<open>Series.isin(values)\<close> for a list of option labels of a multiselect: the labels are
  texts, so a missing or numeric cell is in no selection.
\<close>

fun isin :: "string list \<Rightarrow> cell \<Rightarrow> bool" where
  "isin sel (Str s) = (s \<in> set sel)"
| "isin sel _ = False"

fun is_text :: "cell \<Rightarrow> bool" where
  "is_text (Str s) = True"
| "is_text _ = False"

section \<open>Derived-metric normalizer (lines 44-49)\<close>

text \<open>
  \<^verbatim>\<open>if 'impact90' not in d.columns: d['impact90'] = d[src]\<close>. The assignment appends the
  column and copies the source column row by row; reading a source column that does not
  exist raises \<^verbatim>\<open>KeyError\<close>.
\<close>

definition backfill_impact90 :: "string \<Rightarrow> frame \<Rightarrow> error + frame" where
  "backfill_impact90 src d =
     (if ''impact90'' \<notin> set (columns d) then
        (if src \<in> set (columns d) then
           Inr \<lparr>columns = columns d @ [''impact90''],
                rows = map (\<lambda>r. r(''impact90'' := r src)) (rows d)\<rparr>
         else Inl (KeyError src))
      else Inr d)"

text \<open>The match-level frame is treated first (line 45), then the summary frame (line 48).\<close>

definition normalizer :: "frame \<Rightarrow> frame \<Rightarrow> error + frame \<times> frame" where
  "normalizer df players_enriched =
     andthen (backfill_impact90 ''plus_minus_per90'' players_enriched) (\<lambda>players'.
     andthen (backfill_impact90 ''pm90'' df) (\<lambda>df'.
     Inr (df', players')))"

section \<open>Filter engine (lines 113-135)\<close>

text \<open>
  A multiselect returns the list of chosen labels; the script sets the selection to
  \<^verbatim>\<open>None\<close> when the column is not in both frames. \<^verbatim>\<open>if selected:\<close> is false for
  \<^verbatim>\<open>None\<close> and for the empty list. One selection filters both frames, the summary first.
\<close>

definition selection_filter ::
  "string \<Rightarrow> string list option \<Rightarrow> frame \<times> frame \<Rightarrow> error + frame \<times> frame" where
  "selection_filter c selected fs =
     (case selected of
        Some (x # xs) \<Rightarrow>
          andthen (where_col c (isin (x # xs)) (fst fs)) (\<lambda>filtered_df.
          andthen (where_col c (isin (x # xs)) (snd fs)) (\<lambda>filtered_players.
          Inr (filtered_df, filtered_players)))
      | _ \<Rightarrow> Inr fs)"

text \<open>
  \<^verbatim>\<open>filtered_df["name"].str.contains(name_search, case=False, na=False)\<close>. The pattern is
  a regular expression; the regular-expression engine is a parameter \<open>re_compile\<close>, which
  gives the case-insensitive search predicate of a pattern, or nothing for a pattern that
  does not compile. The name column holds texts; a cell that is not a text counts as
  missing and \<^verbatim>\<open>na=False\<close> drops it.
\<close>

fun contains :: "(string \<Rightarrow> bool) \<Rightarrow> cell \<Rightarrow> bool" where
  "contains found (Str s) = found s"
| "contains found _ = False"

definition name_filter ::
  "(string \<Rightarrow> (string \<Rightarrow> bool) option) \<Rightarrow> string \<Rightarrow> frame \<Rightarrow> error + frame" where
  "name_filter re_compile name_search df =
     (if ''name'' \<in> set (columns df) then
        (case re_compile name_search of
           None \<Rightarrow> Inl ReError
         | Some found \<Rightarrow> where_col ''name'' (contains found) df)
      else Inl (KeyError ''name''))"

text \<open>
  \<^verbatim>\<open>filtered_df["minuter"] >= min_minutes\<close>: a comparison with a missing value is false,
  a comparison of a text with a number raises \<^verbatim>\<open>TypeError\<close>.
\<close>

fun ge_threshold :: "int \<Rightarrow> cell \<Rightarrow> bool" where
  "ge_threshold m (Num x) = (of_int m \<le> x)"
| "ge_threshold m _ = False"

definition minutes_filter :: "int \<Rightarrow> frame \<Rightarrow> error + frame" where
  "minutes_filter min_minutes df =
     (if list_ex (\<lambda>r. is_text (r ''minuter'')) (rows df) then Inl TypeError
      else Inr (df\<lparr>rows := filter (\<lambda>r. ge_threshold min_minutes (r ''minuter'')) (rows df)\<rparr>))"

definition apply_filters ::
  "(string \<Rightarrow> (string \<Rightarrow> bool) option) \<Rightarrow> frame \<Rightarrow> frame \<Rightarrow>
   string list option \<Rightarrow> string list option \<Rightarrow> string \<Rightarrow> string \<Rightarrow> int \<Rightarrow>
   error + frame \<times> frame" where
  "apply_filters re_compile df players_enriched selected_years selected_teams
                 name_search position_filter min_minutes =
     andthen (selection_filter ''year'' selected_years (df, players_enriched)) (\<lambda>by_year.
     andthen (selection_filter ''team'' selected_teams by_year) (\<lambda>by_team.
     andthen (if name_search \<noteq> [] then name_filter re_compile name_search (fst by_team)
              else Inr (fst by_team)) (\<lambda>by_name.
     andthen (if position_filter \<noteq> ''All''
              then where_col ''position'' (\<lambda>v. v = Str position_filter) by_name
              else Inr by_name) (\<lambda>by_position.
     andthen (if ''minuter'' \<in> set (columns by_position)
              then minutes_filter min_minutes by_position
              else Inr by_position) (\<lambda>filtered_df.
     Inr (filtered_df, snd by_team))))))"

text \<open>
  What a season or team selection lets through: everything when it is absent or empty,
  the rows whose label is chosen otherwise.
\<close>

definition passes :: "string list option \<Rightarrow> cell \<Rightarrow> bool" where
  "passes selected v = (case selected of Some (x # xs) \<Rightarrow> isin (x # xs) v | _ \<Rightarrow> True)"

definition unselected :: "string list option \<Rightarrow> bool" where
  "unselected selected = (selected = None \<or> selected = Some [])"

text \<open>
  Sample data: a two-player roster, one of them without recorded minutes, and a match log
  of the first player.
\<close>

definition ada_row :: row where
  "ada_row = row_of [(''name'', Str ''Ada''), (''team'', Str ''IK Brage''),
                     (''position'', Str ''FW''), (''year'', Str ''2024''),
                     (''minuter'', Num 900), (''pm90'', Num 1)]"

definition bo_row :: row where
  "bo_row = row_of [(''name'', Str ''Bo''), (''team'', Str ''IK Brage''),
                    (''position'', Str ''DF''), (''year'', Str ''2024''),
                    (''minuter'', NA), (''pm90'', NA)]"

definition sample_summary :: frame where
  "sample_summary =
     \<lparr>columns = [''name'', ''team'', ''position'', ''year'', ''minuter'', ''pm90''],
      rows = [ada_row, bo_row]\<rparr>"

definition ada_home :: row where
  "ada_home = row_of [(''name'', Str ''Ada''), (''team'', Str ''IK Brage''),
                      (''year'', Str ''2024''), (''minutes_played'', Num 90),
                      (''plus_minus_per90'', Num 2)]"

definition ada_away :: row where
  "ada_away = row_of [(''name'', Str ''Ada''), (''team'', Str ''Other''),
                      (''year'', Str ''2023''), (''minutes_played'', Num 45),
                      (''plus_minus_per90'', NA)]"

definition sample_matches :: frame where
  "sample_matches =
     \<lparr>columns = [''name'', ''team'', ''year'', ''minutes_played'', ''plus_minus_per90''],
      rows = [ada_home, ada_away]\<rparr>"

section \<open>Summary view (lines 138-237)\<close>

text \<open>The default columns of the table: the declared list, restricted to the columns present.\<close>

definition default_cols :: "string list" where
  "default_cols =
     [''name'', ''team'', ''position'', ''year'', ''minuter'', ''matcher'',
      ''usage_rate'', ''starter_rate'',
      ''impact_combo90'', ''pm90'', ''gf90'', ''ga90'']"

definition available_cols :: "frame \<Rightarrow> string list" where
  "available_cols filtered_df = filter (\<lambda>c. c \<in> set (columns filtered_df)) default_cols"

text \<open>The four impact metrics of the select box and the column each one names.\<close>

datatype metric_label = Combined_Impact_90 | Impact_per_90 | Plus_minus_per_90 | On_Off_per_90

fun metric_options :: "metric_label \<Rightarrow> string" where
  "metric_options Combined_Impact_90 = ''impact_combo90''"
| "metric_options Impact_per_90 = ''impact90''"
| "metric_options Plus_minus_per_90 = ''plus_minus_per90''"
| "metric_options On_Off_per_90 = ''on_off_diff''"

text \<open>
  The aggregations of pandas skip missing values: \<^verbatim>\<open>mean\<close> is undefined for no value,
  \<^verbatim>\<open>std\<close> is the sample standard deviation (divisor \<open>n - 1\<close>) and is undefined for fewer
  than two values, \<^verbatim>\<open>count\<close> counts the defined values, \<^verbatim>\<open>sum\<close> of no value is 0.
\<close>

fun numbers :: "cell list \<Rightarrow> real list" where
  "numbers [] = []"
| "numbers (Num x # vs) = x # numbers vs"
| "numbers (v # vs) = numbers vs"

fun texts :: "cell list \<Rightarrow> string list" where
  "texts [] = []"
| "texts (Str s # vs) = s # texts vs"
| "texts (v # vs) = texts vs"

definition mean :: "real list \<Rightarrow> real option" where
  "mean xs = (if xs = [] then None else Some (sum_list xs / real (length xs)))"

definition std :: "real list \<Rightarrow> real option" where
  "std xs =
     (if length xs < 2 then None
      else Some (sqrt (sum_list (map (\<lambda>x. (x - sum_list xs / real (length xs))\<^sup>2) xs)
                       / real (length xs - 1))))"

text \<open>
  \<^verbatim>\<open>groupby("name")\<close>: one group for each distinct name that is not missing, the groups in
  ascending order of their names (numbers before texts).
\<close>

definition group_keys :: "cell list \<Rightarrow> cell list" where
  "group_keys vs = map Num (sort (remdups (numbers vs))) @ map Str (sort (remdups (texts vs)))"

record agg_row =
  name :: cell
  impact_mean :: "real option"
  impact_std :: "real option"
  matches_used :: nat
  minutes_total :: real

definition agg :: "string \<Rightarrow> cell \<Rightarrow> row list \<Rightarrow> agg_row" where
  "agg metric k g =
     \<lparr>name = k,
      impact_mean = mean (numbers (map (\<lambda>r. r metric) g)),
      impact_std = std (numbers (map (\<lambda>r. r metric) g)),
      matches_used = length (numbers (map (\<lambda>r. r metric) g)),
      minutes_total = sum_list (numbers (map (\<lambda>r. r ''minutes_played'') g))\<rparr>"

text \<open>
  Lines 201-211. A missing column raises \<^verbatim>\<open>KeyError\<close>; a text among the aggregated cells
  of a grouped row makes the numeric aggregation fail.
\<close>

definition impact_summary :: "string \<Rightarrow> frame \<Rightarrow> error + agg_row list" where
  "impact_summary metric filtered_players =
     (if ''name'' \<notin> set (columns filtered_players) then Inl (KeyError ''name'')
      else if metric \<notin> set (columns filtered_players) then Inl (KeyError metric)
      else if ''minutes_played'' \<notin> set (columns filtered_players)
        then Inl (KeyError ''minutes_played'')
      else if list_ex (\<lambda>r. r ''name'' \<noteq> NA \<and>
                 (is_text (r metric) \<or> is_text (r ''minutes_played'')))
               (rows filtered_players) then Inl TypeError
      else Inr (map (\<lambda>k. agg metric k (filter (\<lambda>r. r ''name'' = k) (rows filtered_players)))
                  (group_keys (map (\<lambda>r. r ''name'') (rows filtered_players)))))"

text \<open>Lines 213-216: the rows that go to the scatter plot.\<close>

definition scatter_set :: "int \<Rightarrow> agg_row list \<Rightarrow> agg_row list" where
  "scatter_set min_minutes_scatter summary =
     filter (\<lambda>e. of_int min_minutes_scatter \<le> minutes_total e \<and> impact_mean e \<noteq> None) summary"

section \<open>What the page shows\<close>

text \<open>
  The elements the profile view and the scatter view put on the page. Fixed texts of the
  script are constructors named after them; a metric card has its label and its value; a
  chart has its kind and its points (x and y of each row drawn).
\<close>

datatype notice =
    No_players_match
  | No_match_data_for_filters
  | No_match_data
  | No_data_for_filters

datatype heading =
    Select_player
  | Availability
  | Impact
  | Match_usage
  | Match_impact
  | Offensive_impact
  | Defensive_impact

datatype shown = Dash | IntText int | IntVal int | NumVal real | NanVal | TextVal string | NoneVal

datatype chart = Minutes_bar | Impact_line | GF_on_line | GA_on_line

datatype ui =
    Subheader heading
  | Header cell
  | Caption nat
  | Divider
  | Warning notice
  | Info notice
  | Metric string shown
  | Plotly_chart chart "(cell \<times> cell) list"
  | Scatter "agg_row list"

text \<open>
  Lines 218-237: the scatter plot of the rows kept, or a notice when no player is left. The
  plot is given the kept rows as they are; its two median reference lines are left out.
\<close>

definition scatter_view :: "metric_label \<Rightarrow> int \<Rightarrow> frame \<Rightarrow> error + ui" where
  "scatter_view selected_metric min_minutes_scatter filtered_players =
     andthen (impact_summary (metric_options selected_metric) filtered_players) (\<lambda>summary.
     if length (scatter_set min_minutes_scatter summary) > 0
     then Inr (Scatter (scatter_set min_minutes_scatter summary))
     else Inr (Info No_data_for_filters))"

section \<open>Player profile view (lines 239-453)\<close>

text \<open>
  \<^verbatim>\<open>Series.sort_values()\<close>: ascending, missing values last; numbers and texts in one
  column cannot be compared.
\<close>

definition sort_values :: "cell list \<Rightarrow> error + cell list" where
  "sort_values vs =
     (if numbers vs \<noteq> [] \<and> texts vs \<noteq> [] then Inl TypeError
      else Inr (map Num (sort (numbers vs)) @ map Str (sort (texts vs)) @
                filter (\<lambda>v. v = NA) vs))"

text \<open>
  \<^verbatim>\<open>st.selectbox(label, options, index)\<close> checks the default position against the options
  before anything is chosen and raises when it is not a position of the list. It returns
  the option the user chose, the option at the default position when none was chosen.
\<close>

definition selectbox :: "'a list \<Rightarrow> nat \<Rightarrow> nat option \<Rightarrow> error + 'a" where
  "selectbox options index chosen =
     (if options \<noteq> [] \<and> \<not> index < length options then Inl StreamlitAPIException
      else (case chosen of
              Some i \<Rightarrow> Inr (options ! (if i < length options then i else index))
            | None \<Rightarrow> Inr (options ! index)))"

text \<open>\<^verbatim>\<open>==\<close> on cells: a missing value equals nothing.\<close>

definition eq_cell :: "cell \<Rightarrow> cell \<Rightarrow> bool" where
  "eq_cell v w = (v \<noteq> NA \<and> w \<noteq> NA \<and> v = w)"

text \<open>\<^verbatim>\<open>filtered_df[filtered_df["name"] == selected_player].iloc[0]\<close>\<close>

definition first_row_named :: "frame \<Rightarrow> cell \<Rightarrow> error + row" where
  "first_row_named filtered_df selected_player =
     (if ''name'' \<notin> set (columns filtered_df) then Inl (KeyError ''name'')
      else (case filter (\<lambda>r. eq_cell (r ''name'') selected_player) (rows filtered_df) of
              [] \<Rightarrow> Inl IndexError
            | r # rs \<Rightarrow> Inr r))"

text \<open>
  The metric cards (lines 266-293). \<^verbatim>\<open>player_row.get(c)\<close> is \<^verbatim>\<open>None\<close> when the row has
  no such column. \<^verbatim>\<open>int\<close> truncates a number, raises \<^verbatim>\<open>ValueError\<close> on NaN and
  \<^verbatim>\<open>TypeError\<close> on \<^verbatim>\<open>None\<close>; on a text it parses, which is the parameter
  \<open>int_of_text\<close>. \<^verbatim>\<open>round(v, 2)\<close> rounds a number to two decimals (half to even), leaves
  NaN and the integer default 0 as they are, and raises on a text.
\<close>

definition alder :: string where
  "alder = [CHR 0xC3, CHR 0xA5] @ ''lder''"

fun isna :: "cell option \<Rightarrow> bool" where
  "isna None = True"
| "isna (Some NA) = True"
| "isna (Some v) = False"

fun as_shown :: "cell option \<Rightarrow> shown" where
  "as_shown None = NoneVal"
| "as_shown (Some NA) = NanVal"
| "as_shown (Some (Num x)) = NumVal x"
| "as_shown (Some (Str s)) = TextVal s"

definition truncate :: "real \<Rightarrow> int" where
  "truncate x = (if 0 \<le> x then \<lfloor>x\<rfloor> else \<lceil>x\<rceil>)"

fun py_int :: "(string \<Rightarrow> int option) \<Rightarrow> cell option \<Rightarrow> error + int" where
  "py_int int_of_text None = Inl TypeError"
| "py_int int_of_text (Some NA) = Inl ValueError"
| "py_int int_of_text (Some (Num x)) = Inr (truncate x)"
| "py_int int_of_text (Some (Str s)) =
     (case int_of_text s of None \<Rightarrow> Inl ValueError | Some i \<Rightarrow> Inr i)"

definition rint :: "real \<Rightarrow> int" where
  "rint x =
     (if x - of_int \<lfloor>x\<rfloor> < 1 / 2 then \<lfloor>x\<rfloor>
      else if x - of_int \<lfloor>x\<rfloor> > 1 / 2 then \<lfloor>x\<rfloor> + 1
      else if even \<lfloor>x\<rfloor> then \<lfloor>x\<rfloor> else \<lfloor>x\<rfloor> + 1)"

fun round2 :: "cell option \<Rightarrow> error + shown" where
  "round2 None = Inr (IntVal 0)"
| "round2 (Some NA) = Inr NanVal"
| "round2 (Some (Num x)) = Inr (NumVal (of_int (rint (x * 100)) / 100))"
| "round2 (Some (Str s)) = Inl TypeError"

definition int_or_dash :: "(string \<Rightarrow> int option) \<Rightarrow> cell option \<Rightarrow> error + shown" where
  "int_or_dash int_of_text v =
     (if isna v then Inr Dash else andthen (py_int int_of_text v) (\<lambda>i. Inr (IntText i)))"

definition metric_cards ::
  "(string \<Rightarrow> int option) \<Rightarrow> string list \<Rightarrow> row \<Rightarrow> error + ui list" where
  "metric_cards int_of_text cols player_row =
     (let get = (\<lambda>c. if c \<in> set cols then Some (player_row c) else None) in
      andthen (int_or_dash int_of_text (get alder)) (\<lambda>age.
      andthen (py_int int_of_text (get ''minuter'')) (\<lambda>minutes.
      andthen (int_or_dash int_of_text (get ''market_value'')) (\<lambda>mv.
      andthen (py_int int_of_text (get ''matcher'')) (\<lambda>matches.
      andthen (round2 (get ''usage_rate'')) (\<lambda>usage_rate.
      andthen (round2 (get ''starter_rate'')) (\<lambda>starter_rate.
      andthen (round2 (get ''impact90'')) (\<lambda>impact90.
      andthen (round2 (get ''pm90'')) (\<lambda>pm90.
      andthen (round2 (get ''on_off_total'')) (\<lambda>on_off_total.
      Inr [Metric ''Team'' (as_shown (get ''team'')),
           Metric ''Position'' (as_shown (get ''position'')),
           Metric ''Year'' age,
           Metric ''Minutes'' (IntVal minutes),
           Metric ''Market value'' mv,
           Subheader Availability,
           Metric ''Matches'' (IntVal matches),
           Metric ''Usage rate'' usage_rate,
           Metric ''Starter rate'' starter_rate,
           Subheader Impact,
           Metric ''Impact / 90'' impact90,
           Metric ''Plus-minus / 90'' pm90,
           Metric ''On-Off diff'' on_off_total]))))))))))"

text \<open>
  The per-match charts (lines 299-453). Each of the four sections takes the selected
  player's rows of the filtered match frame again and sorts them by the start of the match.
\<close>

definition rows_named :: "frame \<Rightarrow> cell \<Rightarrow> error + frame" where
  "rows_named filtered_players player_name =
     where_col ''name'' (\<lambda>v. eq_cell v player_name) filtered_players"

fun is_number :: "cell \<Rightarrow> bool" where
  "is_number (Num x) = True"
| "is_number _ = False"

fun num_key :: "cell \<Rightarrow> real" where
  "num_key (Num x) = x"
| "num_key _ = 0"

fun text_key :: "cell \<Rightarrow> string" where
  "text_key (Str s) = s"
| "text_key _ = []"

text \<open>
  \<^verbatim>\<open>DataFrame.sort_values(c)\<close>: ascending by the column, missing values last; rows with
  equal keys are kept in their order here.
\<close>

definition sort_values_by :: "string \<Rightarrow> frame \<Rightarrow> error + frame" where
  "sort_values_by c d =
     (if c \<notin> set (columns d) then Inl (KeyError c)
      else if numbers (map (\<lambda>r. r c) (rows d)) \<noteq> [] \<and> texts (map (\<lambda>r. r c) (rows d)) \<noteq> []
        then Inl TypeError
      else Inr (d\<lparr>rows :=
                  sort_key (\<lambda>r. num_key (r c)) (filter (\<lambda>r. is_number (r c)) (rows d)) @
                  sort_key (\<lambda>r. text_key (r c)) (filter (\<lambda>r. is_text (r c)) (rows d)) @
                  filter (\<lambda>r. r c = NA) (rows d)\<rparr>))"

fun traverse :: "('a \<Rightarrow> error + 'b) \<Rightarrow> 'a list \<Rightarrow> error + 'b list" where
  "traverse f [] = Inr []"
| "traverse f (x # xs) = andthen (f x) (\<lambda>y. andthen (traverse f xs) (\<lambda>ys. Inr (y # ys)))"

text \<open>
  \<^verbatim>\<open>m[c] = m[c].astype(float)\<close>: numbers and missing values stay, a text is parsed, which
  is the parameter \<open>float_of_text\<close>, and a text that is no number raises.
\<close>

definition astype_float :: "(string \<Rightarrow> real option) \<Rightarrow> string \<Rightarrow> frame \<Rightarrow> error + frame" where
  "astype_float float_of_text c m =
     (if c \<notin> set (columns m) then Inl (KeyError c)
      else andthen
             (traverse (\<lambda>r. case r c of
                               Str s \<Rightarrow> (case float_of_text s of
                                           None \<Rightarrow> Inl ValueError
                                         | Some x \<Rightarrow> Inr (r(c := Num x)))
                             | _ \<Rightarrow> Inr r)
                (rows m))
             (\<lambda>rs. Inr (m\<lparr>rows := rs\<rparr>)))"

text \<open>\<^verbatim>\<open>d[[c1, ..., cn]]\<close>: the listed columns, all of which must exist.\<close>

definition select_columns :: "string list \<Rightarrow> frame \<Rightarrow> error + frame" where
  "select_columns cs d =
     (case filter (\<lambda>c. c \<notin> set (columns d)) cs of
        [] \<Rightarrow> Inr (d\<lparr>columns := cs\<rparr>)
      | c # rest \<Rightarrow> Inl (KeyError c))"

text \<open>A plotly express figure: every column it is given must exist in the frame.\<close>

definition px :: "chart \<Rightarrow> string \<Rightarrow> string \<Rightarrow> string list \<Rightarrow> frame \<Rightarrow> error + ui list" where
  "px kind x y others d =
     (if list_all (\<lambda>c. c \<in> set (columns d)) (x # y # others)
      then Inr [Plotly_chart kind (map (\<lambda>r. (r x, r y)) (rows d))]
      else Inl ValueError)"

definition influence_columns :: "string list" where
  "influence_columns =
     [''match_start_datetime'', ''match_id_short'', ''name'', ''player_type'',
      ''minutes_played'', ''goals'', ''assists'', ''gf_on'', ''ga_on'', ''plus_minus_raw'',
      ''on_goal_diff'', ''off_goal_diff'', ''yellow_card'', ''red_card'']"

text \<open>Lines 304-349: the rows of the usage chart, and the chart or its notice.\<close>

definition usage_rows :: "(string \<Rightarrow> real option) \<Rightarrow> frame \<Rightarrow> cell \<Rightarrow> error + frame" where
  "usage_rows float_of_text filtered_players player_name =
     andthen (rows_named filtered_players player_name) (\<lambda>m.
     andthen (sort_values_by ''match_start_datetime'' m) (\<lambda>m.
     andthen (astype_float float_of_text ''start_minute'' m) (\<lambda>m.
     andthen (astype_float float_of_text ''end_minute'' m) (\<lambda>m.
     astype_float float_of_text ''minutes_played'' m))))"

definition usage_chart :: "frame \<Rightarrow> error + ui list" where
  "usage_chart m =
     (if length (rows m) > 0 then
        andthen (px Minutes_bar ''match_id_short'' ''minutes_played''
                   [''player_type'', ''minutes_played'', ''start_minute'', ''end_minute'',
                    ''goals'', ''assists'', ''plus_minus_impact''] m) (\<lambda>fig.
        andthen (getitem m ''match_length'') (\<lambda>lengths. Inr fig))
      else Inr [Info No_match_data_for_filters])"

text \<open>Lines 359-399.\<close>

definition impact_chart :: "frame \<Rightarrow> cell \<Rightarrow> error + ui list" where
  "impact_chart filtered_players player_name =
     andthen (rows_named filtered_players player_name) (\<lambda>d.
     andthen (sort_values_by ''match_start_datetime'' d) (\<lambda>player_data.
     if length (rows player_data) > 0 then
       px Impact_line ''match_id_short'' ''impact_combo90''
          [''minutes_played'', ''goals'', ''assists'', ''yellow_card'', ''red_card'',
           ''plus_minus_raw''] player_data
     else Inr [Info No_match_data]))"

text \<open>Lines 409-427 (\<open>gf_on\<close>) and 435-453 (\<open>ga_on\<close>): the \<^verbatim>\<open>if\<close> has no \<^verbatim>\<open>else\<close>.\<close>

definition influence_chart :: "chart \<Rightarrow> string \<Rightarrow> frame \<Rightarrow> cell \<Rightarrow> error + ui list" where
  "influence_chart kind y filtered_players player_name =
     andthen (rows_named filtered_players player_name) (\<lambda>d.
     andthen (select_columns influence_columns d) (\<lambda>d.
     andthen (sort_values_by ''match_start_datetime'' d) (\<lambda>player_data.
     if length (rows player_data) > 0 then px kind ''match_id_short'' y [] player_data
     else Inr [])))"

definition match_charts ::
  "(string \<Rightarrow> real option) \<Rightarrow> frame \<Rightarrow> cell \<Rightarrow> error + ui list" where
  "match_charts float_of_text filtered_players player_name =
     andthen (usage_rows float_of_text filtered_players player_name) (\<lambda>m.
     andthen (usage_chart m) (\<lambda>usage.
     andthen (impact_chart filtered_players player_name) (\<lambda>impact.
     andthen (influence_chart GF_on_line ''gf_on'' filtered_players player_name) (\<lambda>offensive.
     andthen (influence_chart GA_on_line ''ga_on'' filtered_players player_name) (\<lambda>defensive.
     Inr ([Subheader Match_usage] @ usage @
          [Divider, Subheader Match_impact] @ impact @
          [Divider, Subheader Offensive_impact] @ offensive @
          [Subheader Defensive_impact] @ defensive))))))"

text \<open>
  Lines 245-263 and the sections above: the profile view. \<open>chosen\<close> is the position the
  user picked in the select box, if any; the default position is the constant 6.
\<close>

definition profile_view ::
  "(string \<Rightarrow> int option) \<Rightarrow> (string \<Rightarrow> real option) \<Rightarrow> frame \<Rightarrow> frame \<Rightarrow> nat option \<Rightarrow>
   error + ui list" where
  "profile_view int_of_text float_of_text filtered_df filtered_players chosen =
     andthen (getitem filtered_df ''name'') (\<lambda>names.
     andthen (sort_values names) (\<lambda>player_names.
     if length player_names = 0 then Inr [Subheader Select_player, Warning No_players_match]
     else
       andthen (selectbox player_names 6 chosen) (\<lambda>selected_player.
       andthen (first_row_named filtered_df selected_player) (\<lambda>player_row.
       andthen (metric_cards int_of_text (columns filtered_df) player_row) (\<lambda>cards.
       andthen (match_charts float_of_text filtered_players selected_player) (\<lambda>charts.
       Inr ([Subheader Select_player, Caption (length (rows filtered_df)), Divider,
             Header selected_player] @ cards @ charts)))))))"

section \<open>Comparison view (lines 551-557)\<close>

definition default_cols_pc :: "string list" where
  "default_cols_pc =
     [''name'', ''team'', ''position'', ''year'', ''minuter'', ''matcher'',
      ''usage_rate'', ''starter_rate'',
      ''impact90'', ''pm90'', ''gf90'', ''ga90'']"

definition available_cols_pc :: "frame \<Rightarrow> string list" where
  "available_cols_pc filtered_df = filter (\<lambda>c. c \<in> set (columns filtered_df)) default_cols_pc"

text \<open>
  More sample data: the match log of the aggregation example (impact 1, 3, 5 in 30, 60, 90
  minutes), a player with a single match, a summary row without a recorded number of
  matches, and a match log that has every column the profile charts read.
\<close>

definition three_match_log :: frame where
  "three_match_log =
     \<lparr>columns = [''name'', ''impact90'', ''minutes_played''],
      rows = [row_of [(''name'', Str ''Ada''), (''impact90'', Num 1), (''minutes_played'', Num 30)],
              row_of [(''name'', Str ''Ada''), (''impact90'', Num 3), (''minutes_played'', Num 60)],
              row_of [(''name'', Str ''Ada''), (''impact90'', Num 5), (''minutes_played'', Num 90)]]\<rparr>"

definition single_match_log :: frame where
  "single_match_log =
     \<lparr>columns = [''name'', ''impact90'', ''minutes_played''],
      rows = [row_of [(''name'', Str ''Cy''), (''impact90'', Num 2), (''minutes_played'', Num 400)]]\<rparr>"

definition card_columns :: "string list" where
  "card_columns = [''name'', ''team'', ''position'', alder, ''minuter'', ''market_value'',
                   ''matcher'', ''usage_rate'']"

definition dan_row :: row where
  "dan_row = row_of [(''name'', Str ''Dan''), (''team'', Str ''IK Brage''),
                     (''position'', Str ''MF''), (alder, Num 25), (''minuter'', Num 900),
                     (''market_value'', NA), (''matcher'', NA), (''usage_rate'', Num (1 / 2))]"

definition full_match_log :: frame where
  "full_match_log =
     \<lparr>columns = influence_columns @
                 [''team'', ''year'', ''start_minute'', ''end_minute'', ''match_length'',
                  ''impact_combo90'', ''plus_minus_impact''],
      rows = [ada_home]\<rparr>"

lemma row_of_simps [simp]:
  "row_of [] c = NA"
  "row_of ((k, v) # kvs) c = (if k = c then v else row_of kvs c)"
  by (simp_all add: row_of_def)

lemma sample_cells:
  "ada_row ''name'' = Str ''Ada''" "ada_row ''team'' = Str ''IK Brage''"
  "ada_row ''position'' = Str ''FW''" "ada_row ''year'' = Str ''2024''"
  "ada_row ''minuter'' = Num 900" "ada_row ''pm90'' = Num 1"
  "bo_row ''name'' = Str ''Bo''" "bo_row ''team'' = Str ''IK Brage''"
  "bo_row ''position'' = Str ''DF''" "bo_row ''year'' = Str ''2024''"
  "bo_row ''minuter'' = NA" "bo_row ''pm90'' = NA"
  "ada_home ''name'' = Str ''Ada''" "ada_home ''team'' = Str ''IK Brage''"
  "ada_home ''year'' = Str ''2024''" "ada_home ''minutes_played'' = Num 90"
  "ada_home ''plus_minus_per90'' = Num 2"
  "ada_away ''name'' = Str ''Ada''" "ada_away ''team'' = Str ''Other''"
  "ada_away ''year'' = Str ''2023''" "ada_away ''minutes_played'' = Num 45"
  "ada_away ''plus_minus_per90'' = NA"
  by (simp_all add: ada_row_def bo_row_def ada_home_def ada_away_def)

section \<open>Properties of the normalizer\<close>

lemma backfill_returns:
  assumes "''impact90'' \<in> set (columns d) \<or> src \<in> set (columns d)"
  shows "backfill_impact90 src d =
           Inr (if ''impact90'' \<in> set (columns d) then d
                else \<lparr>columns = columns d @ [''impact90''],
                      rows = map (\<lambda>r. r(''impact90'' := r src)) (rows d)\<rparr>)"
  using assms by (auto simp: backfill_impact90_def)

lemma normalizer_KeyError:
  "''impact90'' \<notin> set (columns pl) \<Longrightarrow> ''plus_minus_per90'' \<notin> set (columns pl) \<Longrightarrow>
     normalizer df pl = Inl (KeyError ''plus_minus_per90'')"
  "''impact90'' \<in> set (columns pl) \<or> ''plus_minus_per90'' \<in> set (columns pl) \<Longrightarrow>
   ''impact90'' \<notin> set (columns df) \<Longrightarrow> ''pm90'' \<notin> set (columns df) \<Longrightarrow>
     normalizer df pl = Inl (KeyError ''pm90'')"
  by (auto simp: normalizer_def andthen_def backfill_impact90_def)

text \<open>
  C2. When each frame has \<open>impact90\<close> or the column it is derived from, normalization
  returns both frames. A match-level frame that lacked \<open>impact90\<close> comes back with that
  column appended and the rows it had, each with \<open>impact90\<close> set to its
  \<open>plus_minus_per90\<close> and nothing else changed, so every row's \<open>impact90\<close> equals its
  \<open>plus_minus_per90\<close>; likewise for the summary frame and \<open>pm90\<close>; a frame that already
  has \<open>impact90\<close> is returned as it is.
\<close>

theorem impact90_fallback:
  assumes "''impact90'' \<in> set (columns pl) \<or> ''plus_minus_per90'' \<in> set (columns pl)"
    and "''impact90'' \<in> set (columns df) \<or> ''pm90'' \<in> set (columns df)"
  shows "\<exists>df' pl'. normalizer df pl = Inr (df', pl') \<and>
         (''impact90'' \<notin> set (columns pl) \<longrightarrow>
            columns pl' = columns pl @ [''impact90''] \<and>
            rows pl' = map (\<lambda>r. r(''impact90'' := r ''plus_minus_per90'')) (rows pl) \<and>
            (\<forall>r \<in> set (rows pl'). r ''impact90'' = r ''plus_minus_per90'')) \<and>
         (''impact90'' \<notin> set (columns df) \<longrightarrow>
            columns df' = columns df @ [''impact90''] \<and>
            rows df' = map (\<lambda>r. r(''impact90'' := r ''pm90'')) (rows df) \<and>
            (\<forall>r \<in> set (rows df'). r ''impact90'' = r ''pm90'')) \<and>
         (''impact90'' \<in> set (columns pl) \<longrightarrow> pl' = pl) \<and>
         (''impact90'' \<in> set (columns df) \<longrightarrow> df' = df)"
proof -
  let ?fill = "\<lambda>src d. if ''impact90'' \<in> set (columns d) then d
                else \<lparr>columns = columns d @ [''impact90''],
                      rows = map (\<lambda>r. r(''impact90'' := r src)) (rows d)\<rparr>"
  have "normalizer df pl = Inr (?fill ''pm90'' df, ?fill ''plus_minus_per90'' pl)"
    unfolding normalizer_def backfill_returns [OF assms(1)] backfill_returns [OF assms(2)]
    by (simp add: andthen_def)
  then show ?thesis by auto
qed

theorem impact90_fallback_witness:
  "(''impact90'' \<in> set (columns sample_matches) \<or>
      ''plus_minus_per90'' \<in> set (columns sample_matches)) \<and>
   (''impact90'' \<in> set (columns sample_summary) \<or> ''pm90'' \<in> set (columns sample_summary)) \<and>
   ''impact90'' \<notin> set (columns sample_matches) \<and>
   ''impact90'' \<notin> set (columns sample_summary) \<and>
   normalizer sample_summary sample_matches =
     Inr (\<lparr>columns = columns sample_summary @ [''impact90''],
           rows = [ada_row(''impact90'' := Num 1), bo_row(''impact90'' := NA)]\<rparr>,
          \<lparr>columns = columns sample_matches @ [''impact90''],
           rows = [ada_home(''impact90'' := Num 2), ada_away(''impact90'' := NA)]\<rparr>) \<and>
   normalizer
     \<lparr>columns = columns sample_summary @ [''impact90''],
       rows = [ada_row(''impact90'' := Num 1), bo_row(''impact90'' := NA)]\<rparr>
     \<lparr>columns = columns sample_matches @ [''impact90''],
       rows = [ada_home(''impact90'' := Num 2), ada_away(''impact90'' := NA)]\<rparr> =
     Inr (\<lparr>columns = columns sample_summary @ [''impact90''],
           rows = [ada_row(''impact90'' := Num 1), bo_row(''impact90'' := NA)]\<rparr>,
          \<lparr>columns = columns sample_matches @ [''impact90''],
           rows = [ada_home(''impact90'' := Num 2), ada_away(''impact90'' := NA)]\<rparr>)"
proof -
  let ?S = "\<lparr>columns = columns sample_summary @ [''impact90''],
             rows = [ada_row(''impact90'' := Num 1), bo_row(''impact90'' := NA)]\<rparr>"
  let ?M = "\<lparr>columns = columns sample_matches @ [''impact90''],
             rows = [ada_home(''impact90'' := Num 2), ada_away(''impact90'' := NA)]\<rparr>"
  have a: "''impact90'' \<in> set (columns sample_matches) \<or>
           ''plus_minus_per90'' \<in> set (columns sample_matches)"
    by (simp add: sample_matches_def)
  have b: "''impact90'' \<in> set (columns sample_summary) \<or> ''pm90'' \<in> set (columns sample_summary)"
    by (simp add: sample_summary_def)
  have c: "''impact90'' \<notin> set (columns sample_matches)" by (simp add: sample_matches_def)
  have d: "''impact90'' \<notin> set (columns sample_summary)" by (simp add: sample_summary_def)
  from impact90_fallback [OF a b] c d obtain df' pl' where
    n: "normalizer sample_summary sample_matches = Inr (df', pl')"
    and p: "columns pl' = columns sample_matches @ [''impact90'']"
           "rows pl' = map (\<lambda>r. r(''impact90'' := r ''plus_minus_per90'')) (rows sample_matches)"
    and s: "columns df' = columns sample_summary @ [''impact90'']"
           "rows df' = map (\<lambda>r. r(''impact90'' := r ''pm90'')) (rows sample_summary)"
    by blast
  have "rows pl' = [ada_home(''impact90'' := Num 2), ada_away(''impact90'' := NA)]"
    unfolding p(2) by (simp add: sample_matches_def sample_cells)
  with p(1) have pl': "pl' = \<lparr>columns = columns sample_matches @ [''impact90''],
           rows = [ada_home(''impact90'' := Num 2), ada_away(''impact90'' := NA)]\<rparr>"
    by (intro frame.equality) simp_all
  have "rows df' = [ada_row(''impact90'' := Num 1), bo_row(''impact90'' := NA)]"
    unfolding s(2) by (simp add: sample_summary_def sample_cells)
  with s(1) have df': "df' = \<lparr>columns = columns sample_summary @ [''impact90''],
           rows = [ada_row(''impact90'' := Num 1), bo_row(''impact90'' := NA)]\<rparr>"
    by (intro frame.equality) simp_all
  from n have "normalizer sample_summary sample_matches =
     Inr (\<lparr>columns = columns sample_summary @ [''impact90''],
           rows = [ada_row(''impact90'' := Num 1), bo_row(''impact90'' := NA)]\<rparr>,
          \<lparr>columns = columns sample_matches @ [''impact90''],
           rows = [ada_home(''impact90'' := Num 2), ada_away(''impact90'' := NA)]\<rparr>)"
    unfolding pl' df' .
  moreover have "normalizer ?S ?M = Inr (?S, ?M)"
  proof -
    have hm: "''impact90'' \<in> set (columns ?M)" and hs: "''impact90'' \<in> set (columns ?S)"
      by simp_all
    from impact90_fallback [OF disjI1 [OF hm] disjI1 [OF hs]] obtain df'' pl'' where
      "normalizer ?S ?M = Inr (df'', pl'')"
      and "''impact90'' \<in> set (columns ?M) \<longrightarrow> pl'' = ?M"
      and "''impact90'' \<in> set (columns ?S) \<longrightarrow> df'' = ?S"
      by (elim exE conjE) (rule that)
    with hm hs show ?thesis by blast
  qed
  ultimately show ?thesis using a b c d by (intro conjI)
qed

section \<open>Properties of the filter engine\<close>

lemma selection_filter_unselected: "unselected s \<Longrightarrow> selection_filter c s fs = Inr fs"
  by (auto simp: unselected_def selection_filter_def)

lemma selection_filter_Inr:
  assumes "selection_filter c s (d, p) = Inr (d', p')"
  shows "d' = d\<lparr>rows := filter (\<lambda>r. passes s (r c)) (rows d)\<rparr>"
    and "p' = p\<lparr>rows := filter (\<lambda>r. passes s (r c)) (rows p)\<rparr>"
  using assms
  by (auto simp: selection_filter_def passes_def where_col_def andthen_def
           split: option.splits list.splits if_splits)


lemma where_col_Inr:
  assumes "where_col c p d = Inr d'"
  shows "columns d' = columns d" and "rows d' = filter (\<lambda>r. p (r c)) (rows d)"
  using assms by (auto simp: where_col_def split: if_splits)

lemma name_filter_Inr:
  assumes "name_filter rc n d = Inr d'"
  shows "columns d' = columns d" and "set (rows d') \<subseteq> set (rows d)"
  using assms
  by (auto simp: name_filter_def where_col_def split: if_splits option.splits)

lemma minutes_filter_Inr:
  assumes "minutes_filter m d = Inr d'"
  shows "columns d' = columns d"
    and "rows d' = filter (\<lambda>r. ge_threshold m (r ''minuter'')) (rows d)"
  using assms by (auto simp: minutes_filter_def split: if_splits)

lemma apply_filters_Inr:
  assumes "apply_filters rc df pl ys ts n p m = Inr (fd, fp)"
  shows "\<exists>d1 d2 d3 d4 p1.
    selection_filter ''year'' ys (df, pl) = Inr (d1, p1) \<and>
    selection_filter ''team'' ts (d1, p1) = Inr (d2, fp) \<and>
    (if n \<noteq> [] then name_filter rc n d2 else Inr d2) = Inr d3 \<and>
    (if p \<noteq> ''All'' then where_col ''position'' (\<lambda>v. v = Str p) d3 else Inr d3) = Inr d4 \<and>
    (if ''minuter'' \<in> set (columns d4) then minutes_filter m d4 else Inr d4) = Inr fd"
proof -
  from assms obtain y where y: "selection_filter ''year'' ys (df, pl) = Inr y"
    unfolding apply_filters_def andthen_def by (auto split: sum.splits)
  from assms y obtain t where t: "selection_filter ''team'' ts y = Inr t"
    unfolding apply_filters_def andthen_def by (auto split: sum.splits)
  from assms y t obtain d3 where
    d3: "(if n \<noteq> [] then name_filter rc n (fst t) else Inr (fst t)) = Inr d3"
    unfolding apply_filters_def andthen_def by (auto split: sum.splits)
  from assms y t d3 obtain d4 where
    d4: "(if p \<noteq> ''All'' then where_col ''position'' (\<lambda>v. v = Str p) d3 else Inr d3) = Inr d4"
    unfolding apply_filters_def andthen_def by (auto split: sum.splits)
  from assms y t d3 d4 have
    fd: "(if ''minuter'' \<in> set (columns d4) then minutes_filter m d4 else Inr d4) = Inr fd"
    and fp: "snd t = fp"
    unfolding apply_filters_def andthen_def by (auto split: sum.splits)
  obtain d1 p1 where y': "y = (d1, p1)" by (cases y)
  obtain d2 where t': "t = (d2, fp)" using fp by (cases t) auto
  have "selection_filter ''year'' ys (df, pl) = Inr (d1, p1)" using y y' by simp
  moreover have "selection_filter ''team'' ts (d1, p1) = Inr (d2, fp)" using t y' t' by simp
  moreover have "(if n \<noteq> [] then name_filter rc n d2 else Inr d2) = Inr d3"
    using d3 t' by (auto split: if_splits)
  ultimately show ?thesis using d4 fd by blast
qed


lemma ge_threshold_iff: "ge_threshold m v \<longleftrightarrow> (\<exists>x. v = Num x \<and> of_int m \<le> x)"
  by (cases v) auto

lemma apply_filters_columns:
  assumes "apply_filters rc df pl ys ts n p m = Inr (fd, fp)"
  shows "columns fd = columns df"
proof -
  from apply_filters_Inr [OF assms] obtain d1 d2 d3 d4 p1 where
    s: "selection_filter ''year'' ys (df, pl) = Inr (d1, p1)"
       "selection_filter ''team'' ts (d1, p1) = Inr (d2, fp)"
       "(if n \<noteq> [] then name_filter rc n d2 else Inr d2) = Inr d3"
       "(if p \<noteq> ''All'' then where_col ''position'' (\<lambda>v. v = Str p) d3 else Inr d3) = Inr d4"
       "(if ''minuter'' \<in> set (columns d4) then minutes_filter m d4 else Inr d4) = Inr fd"
    by blast
  have "columns d1 = columns df" using selection_filter_Inr(1) [OF s(1)] by simp
  moreover have "columns d2 = columns d1" using selection_filter_Inr(1) [OF s(2)] by simp
  moreover have "columns d3 = columns d2"
    using s(3) name_filter_Inr(1) by (auto split: if_splits)
  moreover have "columns d4 = columns d3"
    using s(4) where_col_Inr(1) by (auto split: if_splits)
  moreover have "columns fd = columns d4"
    using s(5) minutes_filter_Inr(1) by (auto split: if_splits)
  ultimately show ?thesis by simp
qed



text \<open>
  C10. When the summary frame has a \<open>minuter\<close> column, every row the filter engine keeps
  has a defined number of minutes that reaches the threshold, whatever the threshold and the
  other filters are; a row whose \<open>minuter\<close> is undefined is in no filtered summary frame.
\<close>

theorem undefined_minutes_excluded:
  assumes "apply_filters rc df pl ys ts n p m = Inr (fd, fp)"
    and "''minuter'' \<in> set (columns df)"
  shows "(\<forall>r \<in> set (rows fd). \<exists>x. r ''minuter'' = Num x \<and> of_int m \<le> x) \<and>
         (\<forall>r. r ''minuter'' = NA \<longrightarrow> r \<notin> set (rows fd))"
proof -
  from apply_filters_Inr [OF assms(1)] obtain d1 d2 d3 d4 p1 where
    s: "selection_filter ''year'' ys (df, pl) = Inr (d1, p1)"
       "selection_filter ''team'' ts (d1, p1) = Inr (d2, fp)"
       "(if n \<noteq> [] then name_filter rc n d2 else Inr d2) = Inr d3"
       "(if p \<noteq> ''All'' then where_col ''position'' (\<lambda>v. v = Str p) d3 else Inr d3) = Inr d4"
       "(if ''minuter'' \<in> set (columns d4) then minutes_filter m d4 else Inr d4) = Inr fd"
    by blast
  have "columns d1 = columns df" using selection_filter_Inr(1) [OF s(1)] by simp
  moreover have "columns d2 = columns d1" using selection_filter_Inr(1) [OF s(2)] by simp
  moreover have "columns d3 = columns d2"
    using s(3) name_filter_Inr(1) by (auto split: if_splits)
  moreover have "columns d4 = columns d3"
    using s(4) where_col_Inr(1) by (auto split: if_splits)
  ultimately have "''minuter'' \<in> set (columns d4)" using assms(2) by simp
  with s(5) have "minutes_filter m d4 = Inr fd" by simp
  from minutes_filter_Inr(2) [OF this]
  have *: "\<forall>r \<in> set (rows fd). \<exists>x. r ''minuter'' = Num x \<and> of_int m \<le> x"
    by (simp add: ge_threshold_iff)
  then show ?thesis by fastforce
qed

theorem undefined_minutes_excluded_witness:
  "apply_filters (\<lambda>pattern. None) sample_summary sample_matches None None [] ''All'' 0
     = Inr (sample_summary\<lparr>rows := [ada_row]\<rparr>, sample_matches) \<and>
   ''minuter'' \<in> set (columns sample_summary) \<and>
   bo_row ''minuter'' = NA \<and> bo_row \<in> set (rows sample_summary) \<and>
   bo_row \<notin> set (rows (sample_summary\<lparr>rows := [ada_row]\<rparr>))"
proof -
  have a: "apply_filters (\<lambda>pattern. None) sample_summary sample_matches None None [] ''All'' 0
     = Inr (sample_summary\<lparr>rows := [ada_row]\<rparr>, sample_matches)"
    by (simp add: apply_filters_def selection_filter_def andthen_def minutes_filter_def
          sample_summary_def sample_cells)
  have c: "''minuter'' \<in> set (columns sample_summary)" by (simp add: sample_summary_def)
  have n: "bo_row ''minuter'' = NA" by (simp add: sample_cells)
  from undefined_minutes_excluded [OF a c] n
  have "bo_row \<notin> set (rows (sample_summary\<lparr>rows := [ada_row]\<rparr>))"
    by blast
  then show ?thesis using a c n by (simp add: sample_summary_def)
qed

text \<open>
  C1 (as amended). With an empty (or absent) season selection and team selection, no name
  search, position "All" and minimum minutes 0, and a \<open>minuter\<close> column that holds no text,
  the match frame comes back as it was; the summary frame comes back as it was when it has
  no \<open>minuter\<close> column, and otherwise it is the input without the rows whose \<open>minuter\<close> is
  undefined or negative. So the summary frame is returned unchanged when every row has
  defined, non-negative minutes.
\<close>

theorem filter_pass_through:
  assumes "unselected selected_years" and "unselected selected_teams"
    and "''minuter'' \<in> set (columns df) \<Longrightarrow> \<not> list_ex (\<lambda>r. is_text (r ''minuter'')) (rows df)"
  shows "apply_filters re_compile df pl selected_years selected_teams [] ''All'' 0 =
           Inr (if ''minuter'' \<in> set (columns df)
                then df\<lparr>rows := filter (\<lambda>r. ge_threshold 0 (r ''minuter'')) (rows df)\<rparr>
                else df, pl) \<and>
         ((''minuter'' \<in> set (columns df) \<longrightarrow>
             (\<forall>r \<in> set (rows df). \<exists>x. r ''minuter'' = Num x \<and> 0 \<le> x)) \<longrightarrow>
          apply_filters re_compile df pl selected_years selected_teams [] ''All'' 0 = Inr (df, pl))"
proof -
  have eq: "apply_filters re_compile df pl selected_years selected_teams [] ''All'' 0 =
           Inr (if ''minuter'' \<in> set (columns df)
                then df\<lparr>rows := filter (\<lambda>r. ge_threshold 0 (r ''minuter'')) (rows df)\<rparr>
                else df, pl)"
    using assms(3)
    by (simp add: apply_filters_def selection_filter_unselected [OF assms(1)]
          selection_filter_unselected [OF assms(2)] andthen_def minutes_filter_def)
  moreover have "filter (\<lambda>r. ge_threshold 0 (r ''minuter'')) (rows df) = rows df"
    if "\<forall>r \<in> set (rows df). \<exists>x. r ''minuter'' = Num x \<and> 0 \<le> x"
    using that by (simp add: ge_threshold_iff)
  ultimately show ?thesis by auto
qed

theorem filter_pass_through_counterexample:
  "apply_filters (\<lambda>pattern. None) sample_summary sample_matches (Some []) (Some []) [] ''All'' 0
     \<noteq> Inr (sample_summary, sample_matches)"
  by (simp add: apply_filters_def selection_filter_def andthen_def minutes_filter_def
        sample_summary_def sample_cells)

theorem filter_pass_through_witness:
  "unselected (Some []) \<and> unselected None \<and>
   \<not> list_ex (\<lambda>r. is_text (r ''minuter'')) (rows sample_summary) \<and>
   apply_filters (\<lambda>pattern. None) sample_summary sample_matches (Some []) None [] ''All'' 0
     = Inr (sample_summary\<lparr>rows := [ada_row]\<rparr>, sample_matches)"
proof -
  have u: "unselected (Some [])" "unselected None" by (simp_all add: unselected_def)
  have t: "\<not> list_ex (\<lambda>r. is_text (r ''minuter'')) (rows sample_summary)"
    by (simp add: sample_summary_def sample_cells)
  have f: "filter (\<lambda>r. ge_threshold 0 (r ''minuter'')) (rows sample_summary) = [ada_row]"
    by (simp add: sample_summary_def sample_cells)
  have c: "''minuter'' \<in> set (columns sample_summary)" by (simp add: sample_summary_def)
  show ?thesis
    using filter_pass_through [OF u t, of "\<lambda>pattern. None" sample_matches] u t f c by simp
qed



section \<open>Properties of the default columns\<close>

lemma default_cols_without:
  "filter (\<lambda>c. c \<noteq> ''impact_combo90'') default_cols =
     [''name'', ''team'', ''position'', ''year'', ''minuter'', ''matcher'',
      ''usage_rate'', ''starter_rate'', ''pm90'', ''gf90'', ''ga90'']"
  "filter (\<lambda>c. c \<noteq> ''impact90'') default_cols_pc =
     [''name'', ''team'', ''position'', ''year'', ''minuter'', ''matcher'',
      ''usage_rate'', ''starter_rate'', ''pm90'', ''gf90'', ''ga90'']"
  by (simp_all add: default_cols_def default_cols_pc_def)

lemma default_cols_split:
  "default_cols = [''name'', ''team'', ''position'', ''year'', ''minuter'', ''matcher'',
      ''usage_rate'', ''starter_rate''] @ ''impact_combo90'' # [''pm90'', ''gf90'', ''ga90'']"
  "default_cols_pc = [''name'', ''team'', ''position'', ''year'', ''minuter'', ''matcher'',
      ''usage_rate'', ''starter_rate''] @ ''impact90'' # [''pm90'', ''gf90'', ''ga90'']"
  by (simp_all add: default_cols_def default_cols_pc_def)

lemma filter_swap: "filter P (filter Q xs) = filter Q (filter P xs)"
  by (induction xs) auto

lemma one_entry_differs:
  assumes "a \<noteq> b"
  shows "filter P (pre @ a # post) = filter P (pre @ b # post) \<longleftrightarrow> \<not> P a \<and> \<not> P b"
  using assms by (auto simp: Cons_eq_filter_iff dest: arg_cong [where f = length])

text \<open>
  C9 (as amended). The summary table and the comparison table resolve their default
  columns in the same way, a declared list restricted to the columns present, but from two
  lists that differ in one entry: \<open>impact_combo90\<close> in the summary view, \<open>impact90\<close> in the
  comparison view. The two resolved lists agree on every other name, and they are equal
  exactly when the frame has neither of the two columns.
\<close>

theorem default_columns_policy:
  "(available_cols_pc d = available_cols d \<longleftrightarrow>
      ''impact90'' \<notin> set (columns d) \<and> ''impact_combo90'' \<notin> set (columns d)) \<and>
   filter (\<lambda>c. c \<noteq> ''impact90'') (available_cols_pc d) =
   filter (\<lambda>c. c \<noteq> ''impact_combo90'') (available_cols d)"
proof -
  have ne: "''impact90'' \<noteq> ''impact_combo90''" by simp
  have "available_cols_pc d = available_cols d \<longleftrightarrow>
          ''impact90'' \<notin> set (columns d) \<and> ''impact_combo90'' \<notin> set (columns d)"
    unfolding available_cols_pc_def available_cols_def default_cols_split
    by (rule one_entry_differs [OF ne])
  moreover have "filter (\<lambda>c. c \<noteq> ''impact90'') (available_cols_pc d) =
                 filter (\<lambda>c. c \<noteq> ''impact_combo90'') (available_cols d)"
    unfolding available_cols_pc_def available_cols_def
    by (subst (1 2) filter_swap) (simp only: default_cols_without)
  ultimately show ?thesis by (rule conjI)
qed

theorem default_columns_counterexample:
  "available_cols_pc (sample_summary\<lparr>columns := columns sample_summary @ [''impact90'']\<rparr>) \<noteq>
   available_cols (sample_summary\<lparr>columns := columns sample_summary @ [''impact90'']\<rparr>)"
  by (simp add: available_cols_pc_def default_cols_pc_def available_cols_def default_cols_def
        sample_summary_def)

section \<open>Properties of the impact summary\<close>

lemma numbers_set: "x \<in> set (numbers vs) \<longleftrightarrow> Num x \<in> set vs"
  by (induction vs rule: numbers.induct) auto

lemma texts_set: "s \<in> set (texts vs) \<longleftrightarrow> Str s \<in> set vs"
  by (induction vs rule: texts.induct) auto

lemma group_keys_set: "k \<in> set (group_keys vs) \<longleftrightarrow> k \<in> set vs \<and> k \<noteq> NA"
  by (cases k) (auto simp: group_keys_def numbers_set texts_set)

lemma group_keys_distinct: "distinct (group_keys vs)"
  by (auto simp: group_keys_def distinct_map inj_on_def)

lemma filter_eq_distinct: "distinct xs \<Longrightarrow> x \<in> set xs \<Longrightarrow> filter (\<lambda>y. y = x) xs = [x]"
  by (induction xs) (auto simp: filter_empty_conv)

lemma impact_summary_Inr:
  assumes "impact_summary metric fp = Inr s"
  shows "s = map (\<lambda>k. agg metric k (filter (\<lambda>r. r ''name'' = k) (rows fp)))
               (group_keys (map (\<lambda>r. r ''name'') (rows fp)))"
  using assms by (auto simp: impact_summary_def split: if_splits)

lemma agg_name [simp]: "name (agg metric k g) = k"
  by (simp add: agg_def)

lemma std_None_iff: "std xs = None \<longleftrightarrow> length xs < 2"
  by (simp add: std_def)

lemma mean_None_iff: "mean xs = None \<longleftrightarrow> length xs = 0"
  by (simp add: mean_def)

lemma agg_undefined:
  "impact_std (agg metric k g) = None \<longleftrightarrow> matches_used (agg metric k g) < 2"
  "impact_mean (agg metric k g) = None \<longleftrightarrow> matches_used (agg metric k g) = 0"
  by (simp_all add: agg_def std_None_iff mean_None_iff)

text \<open>
  C6 (as amended). The scatter set keeps exactly the players whose total minutes reach the
  threshold and whose mean is defined, that is, who have at least one match with the metric
  defined. A player's standard deviation is undefined exactly when fewer than two matches
  have the metric defined; a player with a single such match and enough minutes stays in
  the scatter set, with an undefined standard deviation (not zero).
\<close>

theorem scatter_set_membership:
  assumes "impact_summary metric filtered_players = Inr summary"
  shows "scatter_set threshold summary =
           filter (\<lambda>e. of_int threshold \<le> minutes_total e \<and> 0 < matches_used e) summary \<and>
         (\<forall>e \<in> set summary.
            (impact_mean e = None \<longleftrightarrow> matches_used e = 0) \<and>
            (impact_std e = None \<longleftrightarrow> matches_used e < 2) \<and>
            (matches_used e = 1 \<and> of_int threshold \<le> minutes_total e \<longrightarrow>
               e \<in> set (scatter_set threshold summary) \<and> impact_std e = None))"
proof -
  have u: "(impact_mean e = None \<longleftrightarrow> matches_used e = 0) \<and>
           (impact_std e = None \<longleftrightarrow> matches_used e < 2)" if "e \<in> set summary" for e
    using that impact_summary_Inr [OF assms] agg_undefined by auto
  then have "scatter_set threshold summary =
           filter (\<lambda>e. of_int threshold \<le> minutes_total e \<and> 0 < matches_used e) summary"
    unfolding scatter_set_def by (intro filter_cong) auto
  moreover have "e \<in> set (scatter_set threshold summary) \<and> impact_std e = None"
    if "e \<in> set summary" "matches_used e = 1" "of_int threshold \<le> minutes_total e" for e
    using that u [OF that(1)] by (simp add: scatter_set_def)
  ultimately show ?thesis using u by blast
qed

theorem scatter_set_membership_counterexample:
  "scatter_view Impact_per_90 300 single_match_log =
     Inr (Scatter [\<lparr>name = Str ''Cy'', impact_mean = Some 2, impact_std = None,
                    matches_used = 1, minutes_total = 400\<rparr>])"
  by (simp add: scatter_view_def andthen_def scatter_set_def impact_summary_def
        single_match_log_def group_keys_def agg_def mean_def std_def)

theorem scatter_set_membership_witness:
  "impact_summary ''impact90'' single_match_log =
     Inr [\<lparr>name = Str ''Cy'', impact_mean = Some 2, impact_std = None,
           matches_used = 1, minutes_total = 400\<rparr>] \<and>
   scatter_set 300 [\<lparr>name = Str ''Cy'', impact_mean = Some 2, impact_std = None,
                     matches_used = 1, minutes_total = 400\<rparr>] =
     [\<lparr>name = Str ''Cy'', impact_mean = Some 2, impact_std = None,
       matches_used = 1, minutes_total = 400\<rparr>]"
proof -
  have h: "impact_summary ''impact90'' single_match_log =
     Inr [\<lparr>name = Str ''Cy'', impact_mean = Some 2, impact_std = None,
           matches_used = 1, minutes_total = 400\<rparr>]"
    by (simp add: impact_summary_def single_match_log_def group_keys_def agg_def mean_def std_def)
  from scatter_set_membership [OF h, of 300] h show ?thesis by simp
qed

lemma aggregation_example:
  assumes "impact_summary metric filtered_players = Inr summary"
    and "k \<noteq> NA"
    and "map (\<lambda>r. r metric) (filter (\<lambda>r. r ''name'' = k) (rows filtered_players)) =
           [Num 1, Num 3, Num 5]"
    and "map (\<lambda>r. r ''minutes_played'') (filter (\<lambda>r. r ''name'' = k) (rows filtered_players)) =
           [Num 30, Num 60, Num 90]"
  shows "filter (\<lambda>e. name e = k) summary =
           [\<lparr>name = k, impact_mean = Some 3, impact_std = Some 2, matches_used = 3,
             minutes_total = 180\<rparr>] \<and>
         filter (\<lambda>e. name e = k) (scatter_set 200 summary) = [] \<and>
         filter (\<lambda>e. name e = k) (scatter_set 100 summary) =
           [\<lparr>name = k, impact_mean = Some 3, impact_std = Some 2, matches_used = 3,
             minutes_total = 180\<rparr>]"
proof -
  let ?g = "filter (\<lambda>r. r ''name'' = k) (rows filtered_players)"
  let ?keys = "group_keys (map (\<lambda>r. r ''name'') (rows filtered_players))"
  let ?e = "\<lparr>name = k, impact_mean = Some 3, impact_std = Some 2, matches_used = 3,
             minutes_total = 180\<rparr>"
  have "?g \<noteq> []" using assms(3) by auto
  then obtain r where "r \<in> set (rows filtered_players)" "r ''name'' = k"
    by (auto simp: filter_empty_conv)
  then have k: "k \<in> set ?keys" using assms(2) by (auto simp: group_keys_set)
  have e: "agg metric k ?g = ?e"
    by (simp add: agg_def assms(3,4) mean_def std_def power2_eq_square)
  have s: "summary = map (\<lambda>k. agg metric k (filter (\<lambda>r. r ''name'' = k) (rows filtered_players)))
               ?keys"
    by (rule impact_summary_Inr [OF assms(1)])
  have "filter (\<lambda>e. name e = k) summary =
          map (\<lambda>k. agg metric k (filter (\<lambda>r. r ''name'' = k) (rows filtered_players)))
            (filter (\<lambda>y. y = k) ?keys)"
    unfolding s by (simp add: filter_map comp_def)
  also have "\<dots> = [?e]"
    by (simp add: filter_eq_distinct [OF group_keys_distinct k] e)
  finally have f: "filter (\<lambda>e. name e = k) summary = [?e]" .
  have sw: "filter (\<lambda>e. name e = k) (scatter_set t summary) =
            filter (\<lambda>e. of_int t \<le> minutes_total e \<and> impact_mean e \<noteq> None)
              (filter (\<lambda>e. name e = k) summary)" for t
    unfolding scatter_set_def by (simp add: conj_commute)
  show ?thesis unfolding sw f by simp
qed

lemma numbers_defined: "map Num (numbers vs) = filter (\<lambda>v. \<exists>x. v = Num x) vs"
  by (induction vs rule: numbers.induct) auto

lemma std_spec:
  assumes "2 \<le> length xs"
  shows "\<exists>s. std xs = Some s \<and> 0 \<le> s \<and>
             s\<^sup>2 * real (length xs - 1) =
               (\<Sum>x\<leftarrow>xs. (x - sum_list xs / real (length xs))\<^sup>2)"
proof -
  let ?S = "\<Sum>x\<leftarrow>xs. (x - sum_list xs / real (length xs))\<^sup>2"
  let ?s = "sqrt (?S / real (length xs - 1))"
  have S: "0 \<le> ?S" by (rule sum_list_nonneg) auto
  then have q: "0 \<le> ?S / real (length xs - 1)" by simp
  have "std xs = Some ?s" using assms by (simp add: std_def)
  moreover have "0 \<le> ?s" using q by simp
  moreover have "?s\<^sup>2 * real (length xs - 1) = ?S"
    using assms q by (simp add: real_sqrt_pow2)
  ultimately show ?thesis by blast
qed

lemma agg_spec:
  "matches_used (agg metric k g) = length (numbers (map (\<lambda>r. r metric) g))"
  "minutes_total (agg metric k g) = sum_list (numbers (map (\<lambda>r. r ''minutes_played'') g))"
  "impact_mean (agg metric k g) = mean (numbers (map (\<lambda>r. r metric) g))"
  "impact_std (agg metric k g) = std (numbers (map (\<lambda>r. r metric) g))"
  by (simp_all add: agg_def)

lemma impact_summary_returns:
  assumes "''name'' \<in> set (columns fp)" and "metric \<in> set (columns fp)"
    and "''minutes_played'' \<in> set (columns fp)"
    and "\<forall>r \<in> set (rows fp). r ''name'' \<noteq> NA \<longrightarrow>
           \<not> is_text (r metric) \<and> \<not> is_text (r ''minutes_played'')"
  shows "impact_summary metric fp =
           Inr (map (\<lambda>k. agg metric k (filter (\<lambda>r. r ''name'' = k) (rows fp)))
                  (group_keys (map (\<lambda>r. r ''name'') (rows fp))))"
  using assms by (auto simp: impact_summary_def list_ex_iff)

text \<open>
  C7. For a match frame that has the name, metric and minutes columns and no text among
  the aggregated cells, the aggregation returns one row for each player name that is not
  missing. The row of a player has the count of the player's matches with the metric
  defined, the mean of those metric values (undefined when there is none), their sample
  standard deviation (undefined for fewer than two values, otherwise the non-negative
  number whose square times \<open>n - 1\<close> is the sum of the squared deviations from the mean)
  and the sum of the defined minutes. For a player whose rows have the metric values 1, 3,
  5 and the minutes 30, 60, 90 the row has mean 3, standard deviation 2, count 3 and total
  minutes 180; it is not in the scatter set at threshold 200 and it is at threshold 100.
\<close>

theorem impact_consistency_aggregation:
  assumes "''name'' \<in> set (columns filtered_players)"
    and "metric \<in> set (columns filtered_players)"
    and "''minutes_played'' \<in> set (columns filtered_players)"
    and "\<forall>r \<in> set (rows filtered_players). r ''name'' \<noteq> NA \<longrightarrow>
           \<not> is_text (r metric) \<and> \<not> is_text (r ''minutes_played'')"
  shows "\<exists>summary. impact_summary metric filtered_players = Inr summary \<and>
     distinct (map name summary) \<and>
     set (map name summary) =
       {k. k \<noteq> NA \<and> (\<exists>r \<in> set (rows filtered_players). r ''name'' = k)} \<and>
     (\<forall>e \<in> set summary. \<exists>xs ms.
        map Num xs = filter (\<lambda>v. \<exists>x. v = Num x)
          (map (\<lambda>r. r metric) (filter (\<lambda>r. r ''name'' = name e) (rows filtered_players))) \<and>
        map Num ms = filter (\<lambda>v. \<exists>x. v = Num x)
          (map (\<lambda>r. r ''minutes_played'')
             (filter (\<lambda>r. r ''name'' = name e) (rows filtered_players))) \<and>
        matches_used e = length xs \<and>
        minutes_total e = sum_list ms \<and>
        impact_mean e = (if xs = [] then None else Some (sum_list xs / real (length xs))) \<and>
        (length xs < 2 \<longrightarrow> impact_std e = None) \<and>
        (2 \<le> length xs \<longrightarrow>
           (\<exists>s. impact_std e = Some s \<and> 0 \<le> s \<and>
                s\<^sup>2 * real (length xs - 1) =
                  (\<Sum>x\<leftarrow>xs. (x - sum_list xs / real (length xs))\<^sup>2)))) \<and>
     (\<forall>k. k \<noteq> NA \<and>
          map (\<lambda>r. r metric) (filter (\<lambda>r. r ''name'' = k) (rows filtered_players)) =
            [Num 1, Num 3, Num 5] \<and>
          map (\<lambda>r. r ''minutes_played'')
            (filter (\<lambda>r. r ''name'' = k) (rows filtered_players)) =
            [Num 30, Num 60, Num 90] \<longrightarrow>
          filter (\<lambda>e. name e = k) summary =
            [\<lparr>name = k, impact_mean = Some 3, impact_std = Some 2, matches_used = 3,
              minutes_total = 180\<rparr>] \<and>
          filter (\<lambda>e. name e = k) (scatter_set 200 summary) = [] \<and>
          filter (\<lambda>e. name e = k) (scatter_set 100 summary) =
            [\<lparr>name = k, impact_mean = Some 3, impact_std = Some 2, matches_used = 3,
              minutes_total = 180\<rparr>])"
proof -
  let ?rows = "rows filtered_players"
  let ?keys = "group_keys (map (\<lambda>r. r ''name'') ?rows)"
  let ?summary = "map (\<lambda>k. agg metric k (filter (\<lambda>r. r ''name'' = k) ?rows)) ?keys"
  have ret: "impact_summary metric filtered_players = Inr ?summary"
    by (rule impact_summary_returns [OF assms])
  have names: "map name ?summary = ?keys"
    by (simp add: comp_def)
  have d: "distinct (map name ?summary)"
    unfolding names by (rule group_keys_distinct)
  have s: "set (map name ?summary) = {k. k \<noteq> NA \<and> (\<exists>r \<in> set ?rows. r ''name'' = k)}"
    unfolding names by (auto simp: group_keys_set)
  have per_key: "\<exists>xs ms.
        map Num xs = filter (\<lambda>v. \<exists>x. v = Num x)
          (map (\<lambda>r. r metric) (filter (\<lambda>r. r ''name'' = k) ?rows)) \<and>
        map Num ms = filter (\<lambda>v. \<exists>x. v = Num x)
          (map (\<lambda>r. r ''minutes_played'') (filter (\<lambda>r. r ''name'' = k) ?rows)) \<and>
        matches_used (agg metric k (filter (\<lambda>r. r ''name'' = k) ?rows)) = length xs \<and>
        minutes_total (agg metric k (filter (\<lambda>r. r ''name'' = k) ?rows)) = sum_list ms \<and>
        impact_mean (agg metric k (filter (\<lambda>r. r ''name'' = k) ?rows)) =
          (if xs = [] then None else Some (sum_list xs / real (length xs))) \<and>
        (length xs < 2 \<longrightarrow>
           impact_std (agg metric k (filter (\<lambda>r. r ''name'' = k) ?rows)) = None) \<and>
        (2 \<le> length xs \<longrightarrow>
           (\<exists>s. impact_std (agg metric k (filter (\<lambda>r. r ''name'' = k) ?rows)) = Some s \<and>
                0 \<le> s \<and>
                s\<^sup>2 * real (length xs - 1) =
                  (\<Sum>x\<leftarrow>xs. (x - sum_list xs / real (length xs))\<^sup>2)))" for k
  proof -
    let ?g = "filter (\<lambda>r. r ''name'' = k) ?rows"
    let ?xs = "numbers (map (\<lambda>r. r metric) ?g)"
    let ?ms = "numbers (map (\<lambda>r. r ''minutes_played'') ?g)"
    have "map Num ?xs = filter (\<lambda>v. \<exists>x. v = Num x) (map (\<lambda>r. r metric) ?g)"
      by (rule numbers_defined)
    moreover have "map Num ?ms =
        filter (\<lambda>v. \<exists>x. v = Num x) (map (\<lambda>r. r ''minutes_played'') ?g)"
      by (rule numbers_defined)
    moreover have "matches_used (agg metric k ?g) = length ?xs"
      by (rule agg_spec)
    moreover have "minutes_total (agg metric k ?g) = sum_list ?ms"
      by (rule agg_spec)
    moreover have "impact_mean (agg metric k ?g) =
        (if ?xs = [] then None else Some (sum_list ?xs / real (length ?xs)))"
      unfolding agg_spec by (simp only: mean_def)
    moreover have "length ?xs < 2 \<longrightarrow> impact_std (agg metric k ?g) = None"
      unfolding agg_spec by (simp add: std_None_iff)
    moreover have "2 \<le> length ?xs \<longrightarrow>
           (\<exists>s. impact_std (agg metric k ?g) = Some s \<and> 0 \<le> s \<and>
                s\<^sup>2 * real (length ?xs - 1) =
                  (\<Sum>x\<leftarrow>?xs. (x - sum_list ?xs / real (length ?xs))\<^sup>2))"
      unfolding agg_spec using std_spec [of ?xs] by (rule impI)
    ultimately show ?thesis by blast
  qed
  have per: "\<exists>xs ms.
        map Num xs = filter (\<lambda>v. \<exists>x. v = Num x)
          (map (\<lambda>r. r metric) (filter (\<lambda>r. r ''name'' = name e) ?rows)) \<and>
        map Num ms = filter (\<lambda>v. \<exists>x. v = Num x)
          (map (\<lambda>r. r ''minutes_played'') (filter (\<lambda>r. r ''name'' = name e) ?rows)) \<and>
        matches_used e = length xs \<and>
        minutes_total e = sum_list ms \<and>
        impact_mean e = (if xs = [] then None else Some (sum_list xs / real (length xs))) \<and>
        (length xs < 2 \<longrightarrow> impact_std e = None) \<and>
        (2 \<le> length xs \<longrightarrow>
           (\<exists>s. impact_std e = Some s \<and> 0 \<le> s \<and>
                s\<^sup>2 * real (length xs - 1) =
                  (\<Sum>x\<leftarrow>xs. (x - sum_list xs / real (length xs))\<^sup>2)))"
    if "e \<in> set ?summary" for e
  proof -
    from that obtain k where e: "e = agg metric k (filter (\<lambda>r. r ''name'' = k) ?rows)"
      by auto
    show ?thesis unfolding e agg_name by (rule per_key)
  qed
  have ex: "filter (\<lambda>e. name e = k) ?summary =
            [\<lparr>name = k, impact_mean = Some 3, impact_std = Some 2, matches_used = 3,
              minutes_total = 180\<rparr>] \<and>
          filter (\<lambda>e. name e = k) (scatter_set 200 ?summary) = [] \<and>
          filter (\<lambda>e. name e = k) (scatter_set 100 ?summary) =
            [\<lparr>name = k, impact_mean = Some 3, impact_std = Some 2, matches_used = 3,
              minutes_total = 180\<rparr>]"
    if "k \<noteq> NA"
      "map (\<lambda>r. r metric) (filter (\<lambda>r. r ''name'' = k) ?rows) = [Num 1, Num 3, Num 5]"
      "map (\<lambda>r. r ''minutes_played'') (filter (\<lambda>r. r ''name'' = k) ?rows) =
         [Num 30, Num 60, Num 90]" for k
    by (rule aggregation_example [OF ret that])
  have all_per: "\<forall>e \<in> set ?summary. \<exists>xs ms.
        map Num xs = filter (\<lambda>v. \<exists>x. v = Num x)
          (map (\<lambda>r. r metric) (filter (\<lambda>r. r ''name'' = name e) ?rows)) \<and>
        map Num ms = filter (\<lambda>v. \<exists>x. v = Num x)
          (map (\<lambda>r. r ''minutes_played'') (filter (\<lambda>r. r ''name'' = name e) ?rows)) \<and>
        matches_used e = length xs \<and>
        minutes_total e = sum_list ms \<and>
        impact_mean e = (if xs = [] then None else Some (sum_list xs / real (length xs))) \<and>
        (length xs < 2 \<longrightarrow> impact_std e = None) \<and>
        (2 \<le> length xs \<longrightarrow>
           (\<exists>s. impact_std e = Some s \<and> 0 \<le> s \<and>
                s\<^sup>2 * real (length xs - 1) =
                  (\<Sum>x\<leftarrow>xs. (x - sum_list xs / real (length xs))\<^sup>2)))"
    by (rule ballI) (rule per)
  have all_ex: "\<forall>k. k \<noteq> NA \<and>
          map (\<lambda>r. r metric) (filter (\<lambda>r. r ''name'' = k) ?rows) = [Num 1, Num 3, Num 5] \<and>
          map (\<lambda>r. r ''minutes_played'') (filter (\<lambda>r. r ''name'' = k) ?rows) =
            [Num 30, Num 60, Num 90] \<longrightarrow>
          filter (\<lambda>e. name e = k) ?summary =
            [\<lparr>name = k, impact_mean = Some 3, impact_std = Some 2, matches_used = 3,
              minutes_total = 180\<rparr>] \<and>
          filter (\<lambda>e. name e = k) (scatter_set 200 ?summary) = [] \<and>
          filter (\<lambda>e. name e = k) (scatter_set 100 ?summary) =
            [\<lparr>name = k, impact_mean = Some 3, impact_std = Some 2, matches_used = 3,
              minutes_total = 180\<rparr>]"
  proof (intro allI impI, elim conjE)
    fix k
    assume "k \<noteq> NA"
      "map (\<lambda>r. r metric) (filter (\<lambda>r. r ''name'' = k) ?rows) = [Num 1, Num 3, Num 5]"
      "map (\<lambda>r. r ''minutes_played'') (filter (\<lambda>r. r ''name'' = k) ?rows) =
         [Num 30, Num 60, Num 90]"
    then show "filter (\<lambda>e. name e = k) ?summary =
            [\<lparr>name = k, impact_mean = Some 3, impact_std = Some 2, matches_used = 3,
              minutes_total = 180\<rparr>] \<and>
          filter (\<lambda>e. name e = k) (scatter_set 200 ?summary) = [] \<and>
          filter (\<lambda>e. name e = k) (scatter_set 100 ?summary) =
            [\<lparr>name = k, impact_mean = Some 3, impact_std = Some 2, matches_used = 3,
              minutes_total = 180\<rparr>]"
      by (rule ex)
  qed
  from ret d s all_per all_ex show ?thesis
    by (intro exI [of _ ?summary] conjI)
qed


theorem impact_consistency_aggregation_witness:
  "''name'' \<in> set (columns three_match_log) \<and>
   ''impact90'' \<in> set (columns three_match_log) \<and>
   ''minutes_played'' \<in> set (columns three_match_log) \<and>
   list_all (\<lambda>r. \<not> is_text (r ''impact90'') \<and> \<not> is_text (r ''minutes_played''))
     (rows three_match_log) \<and>
   impact_summary ''impact90'' three_match_log =
     Inr [\<lparr>name = Str ''Ada'', impact_mean = Some 3, impact_std = Some 2, matches_used = 3,
           minutes_total = 180\<rparr>] \<and>
   scatter_set 200 [\<lparr>name = Str ''Ada'', impact_mean = Some 3, impact_std = Some 2,
                     matches_used = 3, minutes_total = 180\<rparr>] = [] \<and>
   scatter_set 100 [\<lparr>name = Str ''Ada'', impact_mean = Some 3, impact_std = Some 2,
                     matches_used = 3, minutes_total = 180\<rparr>] =
     [\<lparr>name = Str ''Ada'', impact_mean = Some 3, impact_std = Some 2, matches_used = 3,
       minutes_total = 180\<rparr>]"
proof -
  let ?e = "\<lparr>name = Str ''Ada'', impact_mean = Some 3, impact_std = Some 2, matches_used = 3,
             minutes_total = 180\<rparr>"
  have c: "''name'' \<in> set (columns three_match_log)"
          "''impact90'' \<in> set (columns three_match_log)"
          "''minutes_played'' \<in> set (columns three_match_log)"
    by (simp_all add: three_match_log_def)
  have t: "list_all (\<lambda>r. \<not> is_text (r ''impact90'') \<and> \<not> is_text (r ''minutes_played''))
             (rows three_match_log)"
    by (simp add: three_match_log_def)
  then have t': "\<forall>r \<in> set (rows three_match_log). r ''name'' \<noteq> NA \<longrightarrow>
                   \<not> is_text (r ''impact90'') \<and> \<not> is_text (r ''minutes_played'')"
    by (simp add: list_all_iff)
  have m: "map (\<lambda>r. r ''impact90'') (filter (\<lambda>r. r ''name'' = Str ''Ada'') (rows three_match_log)) =
           [Num 1, Num 3, Num 5]"
    by (simp add: three_match_log_def)
  have p: "map (\<lambda>r. r ''minutes_played'')
             (filter (\<lambda>r. r ''name'' = Str ''Ada'') (rows three_match_log)) =
           [Num 30, Num 60, Num 90]"
    by (simp add: three_match_log_def)
  have n: "{k. k \<noteq> NA \<and> (\<exists>r \<in> set (rows three_match_log). r ''name'' = k)} = {Str ''Ada''}"
    by (auto simp: three_match_log_def)
  from impact_consistency_aggregation [OF c t'] obtain summary where
    r: "impact_summary ''impact90'' three_match_log = Inr summary"
    and s: "set (map name summary) =
              {k. k \<noteq> NA \<and> (\<exists>r \<in> set (rows three_match_log). r ''name'' = k)}"
    and x: "\<forall>k. k \<noteq> NA \<and>
          map (\<lambda>r. r ''impact90'') (filter (\<lambda>r. r ''name'' = k) (rows three_match_log)) =
            [Num 1, Num 3, Num 5] \<and>
          map (\<lambda>r. r ''minutes_played'')
            (filter (\<lambda>r. r ''name'' = k) (rows three_match_log)) =
            [Num 30, Num 60, Num 90] \<longrightarrow>
          filter (\<lambda>e. name e = k) summary =
            [\<lparr>name = k, impact_mean = Some 3, impact_std = Some 2, matches_used = 3,
              minutes_total = 180\<rparr>] \<and>
          filter (\<lambda>e. name e = k) (scatter_set 200 summary) = [] \<and>
          filter (\<lambda>e. name e = k) (scatter_set 100 summary) =
            [\<lparr>name = k, impact_mean = Some 3, impact_std = Some 2, matches_used = 3,
              minutes_total = 180\<rparr>]"
    by (elim exE conjE) (rule that)
  have "Str ''Ada'' \<noteq> NA" by simp
  with m p have "Str ''Ada'' \<noteq> NA \<and>
          map (\<lambda>r. r ''impact90'')
            (filter (\<lambda>r. r ''name'' = Str ''Ada'') (rows three_match_log)) =
            [Num 1, Num 3, Num 5] \<and>
          map (\<lambda>r. r ''minutes_played'')
            (filter (\<lambda>r. r ''name'' = Str ''Ada'') (rows three_match_log)) =
            [Num 30, Num 60, Num 90]"
    by (intro conjI)
  from x [rule_format, OF this]
  have f: "filter (\<lambda>e. name e = Str ''Ada'') summary = [?e]" by (rule conjunct1)
  have "\<forall>e \<in> set summary. name e = Str ''Ada''" using s n by auto
  then have "filter (\<lambda>e. name e = Str ''Ada'') summary = summary" by simp
  with f have "summary = [?e]" by simp
  with r have "impact_summary ''impact90'' three_match_log = Inr [?e]" by simp
  moreover have "scatter_set 200 [?e] = []" "scatter_set 100 [?e] = [?e]"
    by (simp_all add: scatter_set_def)
  ultimately show ?thesis using c t by blast
qed

section \<open>Properties of the profile view\<close>

lemma cells_partition:
  "length (numbers vs) + length (texts vs) + length (filter (\<lambda>v. v = NA) vs) = length vs"
proof (induction vs)
  case Nil
  show ?case by simp
next
  case (Cons v vs)
  then show ?case by (cases v) simp_all
qed

lemma sort_values_length:
  assumes "sort_values vs = Inr ws"
  shows "length ws = length vs"
  using assms cells_partition [of vs]
  by (auto simp: sort_values_def split: if_splits)

text \<open>
  C8. The default position 6 is a position of the sorted name list only when the filtered
  roster has at least seven rows: on a roster of one to six rows the select box raises
  and the profile view shows nothing.
\<close>

theorem profile_default_index_out_of_range:
  assumes "getitem filtered_df ''name'' = Inr names"
    and "sort_values names = Inr player_names"
    and "0 < length (rows filtered_df)" and "length (rows filtered_df) < 7"
  shows "profile_view int_of_text float_of_text filtered_df filtered_players chosen =
           Inl StreamlitAPIException"
proof -
  have "length names = length (rows filtered_df)"
    using assms(1) by (auto simp: getitem_def split: if_splits)
  then have n: "length player_names = length (rows filtered_df)"
    using sort_values_length [OF assms(2)] by simp
  then have "selectbox player_names 6 chosen = Inl StreamlitAPIException"
    using assms(3,4) by (auto simp: selectbox_def)
  moreover have "player_names \<noteq> []" using n assms(3) by auto
  ultimately show ?thesis
    using assms(1,2) by (simp add: profile_view_def andthen_def)
qed

theorem profile_default_index_out_of_range_witness:
  "getitem (sample_summary\<lparr>rows := [ada_row]\<rparr>) ''name'' = Inr [Str ''Ada''] \<and>
   sort_values [Str ''Ada''] = Inr [Str ''Ada''] \<and>
   profile_view (\<lambda>s. None) (\<lambda>s. None) (sample_summary\<lparr>rows := [ada_row]\<rparr>) sample_matches None =
     Inl StreamlitAPIException"
proof -
  have g: "getitem (sample_summary\<lparr>rows := [ada_row]\<rparr>) ''name'' = Inr [Str ''Ada'']"
    by (simp add: getitem_def sample_summary_def sample_cells)
  have s: "sort_values [Str ''Ada''] = Inr [Str ''Ada'']"
    by (simp add: sort_values_def)
  have l: "0 < length (rows (sample_summary\<lparr>rows := [ada_row]\<rparr>))"
          "length (rows (sample_summary\<lparr>rows := [ada_row]\<rparr>)) < 7"
    by simp_all
  from profile_default_index_out_of_range [OF g s l] g s show ?thesis by simp
qed

text \<open>
  C4. A selected player whose number of matches is undefined: the "Matches" card converts
  the value with \<^verbatim>\<open>int\<close> unguarded, and the cards raise \<^verbatim>\<open>ValueError\<close>.
\<close>

theorem metric_cards_undefined_matches:
  "metric_cards int_of_text card_columns dan_row = Inl ValueError"
  by (simp add: metric_cards_def card_columns_def dan_row_def alder_def andthen_def
        int_or_dash_def)

lemma no_rows_named:
  assumes "''name'' \<in> set (columns fp)"
    and "filter (\<lambda>r. eq_cell (r ''name'') player_name) (rows fp) = []"
  shows "rows_named fp player_name = Inr (fp\<lparr>rows := []\<rparr>)"
  using assms by (simp add: rows_named_def where_col_def)

lemma sort_no_rows:
  "c \<in> set (columns d) \<Longrightarrow> rows d = [] \<Longrightarrow> sort_values_by c d = Inr d"
  by (simp add: sort_values_by_def)

lemma astype_no_rows:
  "c \<in> set (columns d) \<Longrightarrow> rows d = [] \<Longrightarrow> astype_float f c d = Inr d"
  by (simp add: astype_float_def andthen_def)

text \<open>
  C5. For a player without a row in the filtered match frame (which has the columns the
  charts read), the usage section and the impact section each show a notice; the offensive
  and the defensive section show their heading and nothing else.
\<close>

theorem charts_without_match_rows:
  assumes "set influence_columns \<subseteq> set (columns filtered_players)"
    and "''start_minute'' \<in> set (columns filtered_players)"
    and "''end_minute'' \<in> set (columns filtered_players)"
    and "filter (\<lambda>r. eq_cell (r ''name'') player_name) (rows filtered_players) = []"
  shows "match_charts float_of_text filtered_players player_name =
           Inr [Subheader Match_usage, Info No_match_data_for_filters, Divider,
                Subheader Match_impact, Info No_match_data, Divider,
                Subheader Offensive_impact,
                Subheader Defensive_impact]"
proof -
  let ?e = "filtered_players\<lparr>rows := []\<rparr>"
  have c: "''name'' \<in> set (columns filtered_players)"
          "''match_start_datetime'' \<in> set (columns filtered_players)"
          "''minutes_played'' \<in> set (columns filtered_players)"
    using assms(1) by (auto simp: influence_columns_def)
  have n: "rows_named filtered_players player_name = Inr ?e"
    by (rule no_rows_named [OF c(1) assms(4)])
  have u: "usage_rows float_of_text filtered_players player_name = Inr ?e"
    using c assms(2,3)
    by (simp add: usage_rows_def n andthen_def sort_no_rows astype_no_rows)
  have uc: "usage_chart ?e = Inr [Info No_match_data_for_filters]"
    by (simp add: usage_chart_def)
  have i: "impact_chart filtered_players player_name = Inr [Info No_match_data]"
    using c by (simp add: impact_chart_def n andthen_def sort_no_rows)
  have "filter (\<lambda>c. c \<notin> set (columns filtered_players)) influence_columns = []"
    using assms(1) by (auto simp: filter_empty_conv)
  then have s: "select_columns influence_columns ?e = Inr (?e\<lparr>columns := influence_columns\<rparr>)"
    by (simp add: select_columns_def)
  have "''match_start_datetime'' \<in> set influence_columns"
    by (simp add: influence_columns_def)
  then have f: "influence_chart kind y filtered_players player_name = Inr []" for kind y
    by (simp add: influence_chart_def n s andthen_def sort_no_rows)
  show ?thesis
    by (simp add: match_charts_def u uc i f andthen_def)
qed

theorem charts_without_match_rows_witness:
  "set influence_columns \<subseteq> set (columns full_match_log) \<and>
   filter (\<lambda>r. eq_cell (r ''name'') (Str ''Bo'')) (rows full_match_log) = [] \<and>
   match_charts (\<lambda>s. None) full_match_log (Str ''Bo'') =
           Inr [Subheader Match_usage, Info No_match_data_for_filters, Divider,
                Subheader Match_impact, Info No_match_data, Divider,
                Subheader Offensive_impact,
                Subheader Defensive_impact]"
proof -
  have a: "set influence_columns \<subseteq> set (columns full_match_log)"
    by (auto simp: full_match_log_def)
  have b: "''start_minute'' \<in> set (columns full_match_log)"
          "''end_minute'' \<in> set (columns full_match_log)"
    by (simp_all add: full_match_log_def)
  have c: "filter (\<lambda>r. eq_cell (r ''name'') (Str ''Bo'')) (rows full_match_log) = []"
    by (simp add: full_match_log_def eq_cell_def sample_cells)
  from charts_without_match_rows [OF a b c] a c show ?thesis by simp
qed

end
